theory Spec2Isabelle
  imports Complex_Main
begin

section \<open>Python strings\<close>

text \<open>
  A Python \<open>str\<close> is modelled as an Isabelle \<open>string\<close>. The three string methods the
  cleaning code calls (\<open>strip\<close>, \<open>lower\<close>, \<open>title\<close>) are written out for the ASCII
  range, where CPython's tables are: whitespace is the code points 9--13, 28--31 and 32;
  the cased characters are the letters \<open>A\<close>--\<open>Z\<close> and \<open>a\<close>--\<open>z\<close>. Characters from 128 on
  are carried along unchanged (the Unicode case tables are not part of this model).
\<close>

definition is_space :: "char \<Rightarrow> bool" where
  "is_space c = (let n = (of_char c :: nat) in (9 \<le> n \<and> n \<le> 13) \<or> (28 \<le> n \<and> n \<le> 32))"

definition is_upper :: "char \<Rightarrow> bool" where
  "is_upper c = (let n = (of_char c :: nat) in 65 \<le> n \<and> n \<le> 90)"

definition is_lower :: "char \<Rightarrow> bool" where
  "is_lower c = (let n = (of_char c :: nat) in 97 \<le> n \<and> n \<le> 122)"

definition is_cased :: "char \<Rightarrow> bool" where
  "is_cased c = (is_upper c \<or> is_lower c)"

definition to_lower :: "char \<Rightarrow> char" where
  "to_lower c = (if is_upper c then char_of ((of_char c :: nat) + 32) else c)"

definition to_upper :: "char \<Rightarrow> char" where
  "to_upper c = (if is_lower c then char_of ((of_char c :: nat) - 32) else c)"

text \<open>\<open>s.strip()\<close>: drop the whitespace at both ends.\<close>

definition py_strip :: "string \<Rightarrow> string" where
  "py_strip s = rev (dropWhile is_space (rev (dropWhile is_space s)))"

text \<open>\<open>s.lower()\<close>.\<close>

definition py_lower :: "string \<Rightarrow> string" where
  "py_lower s = map to_lower s"

text \<open>
  \<open>s.title()\<close>: CPython walks the string with a flag \<open>previous_is_cased\<close>; a
  character after a cased one is lowercased, any other is titlecased, and the flag
  becomes the casedness of the character just read.
\<close>

fun title_from :: "bool \<Rightarrow> string \<Rightarrow> string" where
  "title_from prev [] = []"
| "title_from prev (c # cs) =
     (if prev then to_lower c else to_upper c) # title_from (is_cased c) cs"

definition py_title :: "string \<Rightarrow> string" where
  "py_title s = title_from False s"

section \<open>Cell values\<close>

text \<open>
  A float64 or integer value of a column: a finite number (Python's comparison of an
  \<open>int\<close> with a \<open>float\<close> is exact, so both are reals here) or one of the two
  infinities. NaN is not a number of this type: it is the missing marker below.
\<close>

datatype num = Fin real | PInf | NInf

fun num_le :: "num \<Rightarrow> num \<Rightarrow> bool" where
  "num_le NInf y = True"
| "num_le x PInf = True"
| "num_le (Fin a) (Fin b) = (a \<le> b)"
| "num_le x y = False"

text \<open>
  One cell of a table: the missing marker (\<open>NaN\<close>, \<open>None\<close>, \<open>NaT\<close>: everything
  \<open>pd.isna\<close> accepts), a string, a number, or a timestamp (nanoseconds since
  1970-01-01T00:00, the representation pandas uses). A Python \<open>bool\<close> is the number 0 or 1.
\<close>

datatype cell = Missing | Str string | Num num | Stamp int

type_synonym series = "cell list"

datatype error = KeyError string | NotASeries string | TypeError | AttributeError

fun isna :: "cell \<Rightarrow> bool" where
  "isna Missing = True"
| "isna x = False"

fun is_str :: "cell \<Rightarrow> bool" where
  "is_str (Str s) = True"
| "is_str x = False"

section \<open>Library behaviour the source does not fix\<close>

text \<open>
  The cleaning code hands some values to Python and pandas routines whose result is not
  decided by anything in \<open>index.py\<close>. They are parameters of the model, and every
  theorem holds for all of them:
  \<^item> \<open>str_of\<close>: Python's \<open>str(x)\<close> of a value that is not a string;
  \<^item> \<open>str_accessor\<close>: whether pandas offers the \<open>.str\<close> accessor on a column with these
    values; where it does not, \<open>.str\<close> raises \<open>AttributeError\<close> (\<open>Can only use .str
    accessor with string values\<close>), as it does on a column of numbers;
  \<^item> \<open>numeric_of_str\<close>: what \<open>pd.to_numeric(errors='coerce')\<close> reads from one string
    (\<open>None\<close> when it does not parse, or parses to NaN);
  \<^item> \<open>numeric_of_stamp\<close>: what \<open>pd.to_numeric\<close> makes of a timestamp;
  \<^item> \<open>stamp_of_str\<close>: what \<open>pd.to_datetime(errors='coerce', unit='D')\<close> reads from one
    string;
  \<^item> \<open>stamp_of_frac\<close>: the timestamp of a day count that is not a whole number (its
    nanoseconds are rounded in floating point);
  \<^item> \<open>stamp_of_stamp\<close>: what \<open>pd.to_datetime(unit='D')\<close> makes of a timestamp that
    stands among other kinds of values in a column.
\<close>

record pylib =
  str_of :: "cell \<Rightarrow> string"
  str_accessor :: "series \<Rightarrow> bool"
  numeric_of_str :: "string \<Rightarrow> num option"
  numeric_of_stamp :: "int \<Rightarrow> num option"
  stamp_of_str :: "string \<Rightarrow> int option"
  stamp_of_frac :: "real \<Rightarrow> int option"
  stamp_of_stamp :: "int \<Rightarrow> int option"

text \<open>\<open>str(x)\<close>: a string is itself.\<close>

fun py_str :: "pylib \<Rightarrow> cell \<Rightarrow> string" where
  "py_str L (Str s) = s"
| "py_str L x = str_of L x"

section \<open>The per-value functions of \<open>clean_data\<close>\<close>

text \<open>The nested function \<open>clean_gender\<close> (lines 31--40).\<close>

definition clean_gender :: "pylib \<Rightarrow> cell \<Rightarrow> cell" where
  "clean_gender L gender =
     (if isna gender then Missing
      else let g = py_lower (py_strip (py_str L gender)) in
        if g \<in> set [''women'', ''w'', ''female''] then Str ''Female''
        else if g \<in> set [''men'', ''m'', ''male''] then Str ''Male''
        else Missing)"

text \<open>The dictionary \<open>qty_map\<close> and the lambda applied to \<open>Qty\<close> (lines 45--46).\<close>

definition qty_map :: "(string \<times> num) list" where
  "qty_map = [(''one'', Fin 1), (''two'', Fin 2), (''three'', Fin 3),
              (''One'', Fin 1), (''Two'', Fin 2), (''Three'', Fin 3)]"

fun qty_words :: "pylib \<Rightarrow> cell \<Rightarrow> cell" where
  "qty_words L (Str s) =
     (case map_of qty_map (py_lower (py_str L (Str s))) of Some n \<Rightarrow> Num n | None \<Rightarrow> Str s)"
| "qty_words L x = x"

text \<open>\<open>pd.to_numeric(..., errors='coerce')\<close> on one value.\<close>

fun to_numeric :: "pylib \<Rightarrow> cell \<Rightarrow> cell" where
  "to_numeric L Missing = Missing"
| "to_numeric L (Num n) = Num n"
| "to_numeric L (Str s) = (case numeric_of_str L s of Some n \<Rightarrow> Num n | None \<Rightarrow> Missing)"
| "to_numeric L (Stamp t) = (case numeric_of_stamp L t of Some n \<Rightarrow> Num n | None \<Rightarrow> Missing)"


text \<open>
  Line 50 on one value: \<open>.str.strip()\<close> and \<open>.str.title()\<close> give NaN for a value that
  is not a string; \<open>.replace('', np.nan)\<close> replaces the empty string.
\<close>

fun str_strip :: "cell \<Rightarrow> cell" where
  "str_strip (Str s) = Str (py_strip s)"
| "str_strip x = Missing"

fun str_title :: "cell \<Rightarrow> cell" where
  "str_title (Str s) = Str (py_title s)"
| "str_title x = Missing"

definition replace_empty :: "cell \<Rightarrow> cell" where
  "replace_empty x = (if x = Str '''' then Missing else x)"

definition normalize_channel :: "cell \<Rightarrow> cell" where
  "normalize_channel x = replace_empty (str_title (str_strip x))"

text \<open>
  Line 50 on the column: each of \<open>.str.strip()\<close> and \<open>.str.title()\<close> goes through the
  \<open>.str\<close> accessor of the column it is called on.
\<close>

definition str_method :: "pylib \<Rightarrow> (cell \<Rightarrow> cell) \<Rightarrow> series \<Rightarrow> error + series" where
  "str_method L f xs = (if str_accessor L xs then Inr (map f xs) else Inl AttributeError)"

definition channel_step :: "pylib \<Rightarrow> series \<Rightarrow> error + series" where
  "channel_step L xs =
     (case str_method L str_strip xs of
        Inl e \<Rightarrow> Inl e
      | Inr ys \<Rightarrow>
          (case str_method L str_title ys of
             Inl e \<Rightarrow> Inl e
           | Inr zs \<Rightarrow> Inr (map replace_empty zs)))"

text \<open>The nested function \<open>get_age_group\<close> (lines 58--68); comparing a number with a
  string or a timestamp raises \<open>TypeError\<close>.\<close>

fun get_age_group :: "cell \<Rightarrow> error + cell" where
  "get_age_group Missing = Inr Missing"
| "get_age_group (Num age) =
     Inr (if num_le (Fin 3) age \<and> num_le age (Fin 18) then Str ''Teenager''
          else if num_le (Fin 19) age \<and> num_le age (Fin 64) then Str ''Adult''
          else if num_le (Fin 65) age then Str ''Senior''
          else Str ''Other'')"
| "get_age_group x = Inl TypeError"

text \<open>
  Line 54 on one value of a column that is not already a datetime column:
  \<open>pd.to_datetime(..., errors='coerce', unit='D')\<close>. No \<open>origin\<close> is passed, so the day
  count is taken from pandas' default origin, timestamp 0. A whole day count is
  multiplied out exactly; a result outside the timestamp range is coerced to \<open>NaT\<close>.
\<close>

definition ns_per_day :: int where
  "ns_per_day = 86400 * 1000000000"

definition stamp_min :: int where
  "stamp_min = - (2 ^ 63) + 1"

definition stamp_max :: int where
  "stamp_max = 2 ^ 63 - 1"

definition is_whole :: "real \<Rightarrow> bool" where
  "is_whole r = (r = of_int \<lfloor>r\<rfloor>)"

definition stamp_of_days :: "int \<Rightarrow> cell" where
  "stamp_of_days d =
     (let ns = d * ns_per_day in if stamp_min \<le> ns \<and> ns \<le> stamp_max then Stamp ns else Missing)"

definition option_cell :: "('a \<Rightarrow> cell) \<Rightarrow> 'a option \<Rightarrow> cell" where
  "option_cell f v = (case v of Some y \<Rightarrow> f y | None \<Rightarrow> Missing)"

fun to_datetime_cell :: "pylib \<Rightarrow> cell \<Rightarrow> cell" where
  "to_datetime_cell L Missing = Missing"
| "to_datetime_cell L (Num (Fin r)) =
     (if is_whole r then stamp_of_days \<lfloor>r\<rfloor> else option_cell Stamp (stamp_of_frac L r))"
| "to_datetime_cell L (Num PInf) = Missing"
| "to_datetime_cell L (Num NInf) = Missing"
| "to_datetime_cell L (Str s) = option_cell Stamp (stamp_of_str L s)"
| "to_datetime_cell L (Stamp t) = option_cell Stamp (stamp_of_stamp L t)"

text \<open>
  Line 54 on a column: a column that holds only timestamps and missing values already
  has a datetime type (or is all missing), and \<open>pd.to_datetime\<close> returns it as it is.
\<close>

fun is_stamp_or_missing :: "cell \<Rightarrow> bool" where
  "is_stamp_or_missing Missing = True"
| "is_stamp_or_missing (Stamp t) = True"
| "is_stamp_or_missing x = False"

definition to_datetime :: "pylib \<Rightarrow> series \<Rightarrow> series" where
  "to_datetime L xs = (if list_all is_stamp_or_missing xs then xs else map (to_datetime_cell L) xs)"

section \<open>Tables\<close>

text \<open>
  A \<open>DataFrame\<close>: the number of rows of its index and its columns in order, each a
  label with the column's values. \<open>read_excel\<close> gives every column a label of its own.
\<close>

record dataframe =
  nrows :: nat
  columns :: "(string \<times> series) list"

definition labels :: "dataframe \<Rightarrow> string list" where
  "labels d = map fst (columns d)"

definition well_formed :: "dataframe \<Rightarrow> bool" where
  "well_formed d = list_all (\<lambda>(c, xs). length xs = nrows d) (columns d)"

text \<open>\<open>df.rename(columns={old: new}, inplace=True)\<close>.\<close>

definition rename_columns :: "string \<Rightarrow> string \<Rightarrow> dataframe \<Rightarrow> dataframe" where
  "rename_columns old new d =
     d\<lparr>columns := map (\<lambda>(c, xs). (if c = old then new else c, xs)) (columns d)\<rparr>"

text \<open>
  \<open>df[c]\<close> read as a \<open>Series\<close>: \<open>KeyError\<close> when no column has the label; when several
  have it the selection is a \<open>DataFrame\<close>, and the \<open>Series\<close> operation that follows
  fails (\<open>NotASeries\<close>).
\<close>

definition getitem :: "dataframe \<Rightarrow> string \<Rightarrow> error + series" where
  "getitem d c =
     (case filter (\<lambda>(k, xs). k = c) (columns d) of
        [] \<Rightarrow> Inl (KeyError c)
      | [(k, xs)] \<Rightarrow> Inr xs
      | _ \<Rightarrow> Inl (NotASeries c))"

text \<open>\<open>df[c] = xs\<close>: an existing label keeps its place, a new one goes to the end.\<close>

definition setitem :: "dataframe \<Rightarrow> string \<Rightarrow> series \<Rightarrow> dataframe" where
  "setitem d c xs =
     d\<lparr>columns :=
         (if c \<in> set (labels d)
          then map (\<lambda>(k, v). (k, if k = c then xs else v)) (columns d)
          else columns d @ [(c, xs)])\<rparr>"

text \<open>\<open>Series.apply(f)\<close> for an \<open>f\<close> that can raise: the first exception ends the walk.\<close>

fun apply_series :: "(cell \<Rightarrow> error + cell) \<Rightarrow> series \<Rightarrow> error + series" where
  "apply_series f [] = Inr []"
| "apply_series f (x # xs) =
     (case f x of
        Inl e \<Rightarrow> Inl e
      | Inr y \<Rightarrow> (case apply_series f xs of Inl e \<Rightarrow> Inl e | Inr ys \<Rightarrow> Inr (y # ys)))"

text \<open>
  One assignment statement \<open>df[tgt] = g(df[src])\<close>: the table changes only when the
  right-hand side has been computed.
\<close>

type_synonym stmt = "dataframe \<Rightarrow> error + dataframe"

definition assign :: "string \<Rightarrow> string \<Rightarrow> (series \<Rightarrow> error + series) \<Rightarrow> stmt" where
  "assign tgt src g d =
     (case getitem d src of
        Inl e \<Rightarrow> Inl e
      | Inr xs \<Rightarrow> (case g xs of Inl e \<Rightarrow> Inl e | Inr ys \<Rightarrow> Inr (setitem d tgt ys)))"

text \<open>
  Statements run in order on the one table object; an exception stops the run and
  leaves the table as the statements before it made it.
\<close>

fun exec :: "stmt list \<Rightarrow> dataframe \<Rightarrow> error option \<times> dataframe" where
  "exec [] d = (None, d)"
| "exec (s # ss) d = (case s d of Inl e \<Rightarrow> (Some e, d) | Inr d' \<Rightarrow> exec ss d')"

text \<open>Lines 29--70 of \<open>clean_data\<close>, one entry for each statement that touches the table.\<close>

definition clean_steps :: "pylib \<Rightarrow> stmt list" where
  "clean_steps L =
     [Inr \<circ> rename_columns ''Channel '' ''Channel'',
      assign ''Gender'' ''Gender'' (Inr \<circ> map (clean_gender L)),
      assign ''Qty'' ''Qty'' (Inr \<circ> map (qty_words L)),
      assign ''Qty'' ''Qty'' (Inr \<circ> map (to_numeric L)),
      assign ''Channel'' ''Channel'' (channel_step L),
      assign ''Age'' ''Age'' (Inr \<circ> map (to_numeric L)),
      assign ''Date'' ''Date'' (Inr \<circ> to_datetime L),
      assign ''Amount'' ''Amount'' (Inr \<circ> map (to_numeric L)),
      assign ''Age Group'' ''Age'' (apply_series get_age_group)]"

section \<open>The program state and \<open>clean_data\<close>\<close>

text \<open>
  \<open>clean_data\<close> receives a reference to a table object, or \<open>None\<close>. The objects live
  in a heap; what is printed is appended to \<open>stdout\<close> (\<open>df.info()\<close> prints a summary of
  the table it is called on).
\<close>

datatype event = Print string | Info dataframe

record world =
  heap :: "nat \<Rightarrow> dataframe"
  stdout :: "event list"

definition clean_data :: "pylib \<Rightarrow> nat option \<Rightarrow> world \<Rightarrow> (error + nat option) \<times> world" where
  "clean_data L df w =
     (case df of
        None \<Rightarrow> (Inr None, w\<lparr>stdout := stdout w @ [Print ''Error: No data to clean.'']\<rparr>)
      | Some r \<Rightarrow>
          (case exec (clean_steps L) (heap w r) of
             (Some e, d) \<Rightarrow> (Inl e, w\<lparr>heap := (heap w)(r := d)\<rparr>)
           | (None, d) \<Rightarrow>
               (Inr (Some r),
                w\<lparr>heap := (heap w)(r := d),
                  stdout := stdout w @ [Print (CHR 0x0A # ''Dataset Info After Cleaning:''), Info d]\<rparr>)))"

section \<open>Calendar dates\<close>

text \<open>
  The day number of a date of the Gregorian calendar, counted from 1970-01-01, to name
  the dates that timestamps stand for.
\<close>

definition days_from_civil :: "int \<Rightarrow> int \<Rightarrow> int \<Rightarrow> int" where
  "days_from_civil y m d =
     (let y' = (if m \<le> 2 then y - 1 else y);
          era = y' div 400;
          yoe = y' - era * 400;
          doy = (153 * (if m > 2 then m - 3 else m + 9) + 2) div 5 + d - 1;
          doe = yoe * 365 + yoe div 4 - yoe div 100 + doy
      in era * 146097 + doe - 719468)"

text \<open>The timestamp of midnight at the start of a date.\<close>

definition stamp_of_date :: "int \<Rightarrow> int \<Rightarrow> int \<Rightarrow> int" where
  "stamp_of_date y m d = days_from_civil y m d * ns_per_day"


section \<open>An instance of the library parameters\<close>

text \<open>
  To run the model on concrete tables: a library that reads unsigned decimal integers
  and coerces every other string to the missing marker, and that offers \<open>.str\<close> on the
  columns that hold a string (a column left with missing values only is a float column
  in pandas before 3.0).
\<close>

definition is_digit :: "char \<Rightarrow> bool" where
  "is_digit c = (let n = (of_char c :: nat) in 48 \<le> n \<and> n \<le> 57)"

fun digits_value :: "nat \<Rightarrow> string \<Rightarrow> nat" where
  "digits_value acc [] = acc"
| "digits_value acc (c # cs) = digits_value (10 * acc + ((of_char c :: nat) - 48)) cs"

definition parse_decimal :: "string \<Rightarrow> num option" where
  "parse_decimal s =
     (if s \<noteq> [] \<and> list_all is_digit s then Some (Fin (real (digits_value 0 s))) else None)"

definition sample_lib :: pylib where
  "sample_lib =
     \<lparr>str_of = (\<lambda>x. ''?''),
      str_accessor = list_ex is_str,
      numeric_of_str = parse_decimal,
      numeric_of_stamp = (\<lambda>t. None),
      stamp_of_str = (\<lambda>s. None),
      stamp_of_frac = (\<lambda>r. None),
      stamp_of_stamp = (\<lambda>t. None)\<rparr>"

section \<open>Sample tables\<close>

text \<open>A table as \<open>read_excel\<close> may deliver it, and the table \<open>clean_data\<close> makes of it.\<close>

definition sample_table :: dataframe where
  "sample_table =
     \<lparr>nrows = 2,
      columns =
        [(''Gender'', [Str ''W'', Str ''men'']),
         (''Qty'', [Str ''One'', Num (Fin 2)]),
         (''Channel '', [Str '' myntra '', Str '''']),
         (''Age'', [Str ''45'', Num (Fin (37 / 2))]),
         (''Date'', [Num (Fin 44000), Str ''x'']),
         (''Amount'', [Str ''250'', Str ''banana'']),
         (''Status'', [Str ''Delivered'', Missing])]\<rparr>"

definition cleaned_table :: dataframe where
  "cleaned_table =
     \<lparr>nrows = 2,
      columns =
        [(''Gender'', [Str ''Female'', Str ''Male'']),
         (''Qty'', [Num (Fin 1), Num (Fin 2)]),
         (''Channel'', [Str ''Myntra'', Missing]),
         (''Age'', [Num (Fin 45), Num (Fin (37 / 2))]),
         (''Date'', [Stamp (stamp_of_date 2090 6 20), Missing]),
         (''Amount'', [Num (Fin 250), Missing]),
         (''Status'', [Str ''Delivered'', Missing]),
         (''Age Group'', [Str ''Adult'', Str ''Other''])]\<rparr>"

definition sample_world :: world where
  "sample_world = \<lparr>heap = (\<lambda>r. sample_table), stdout = []\<rparr>"

definition cleaned_world :: world where
  "cleaned_world =
     \<lparr>heap = (\<lambda>r. if r = 0 then cleaned_table else sample_table),
      stdout = [Print (CHR 0x0A # ''Dataset Info After Cleaning:''), Info cleaned_table]\<rparr>"







section \<open>Facts about the string methods\<close>

lemma char_of_nat_eq_iff: "char_of (n::nat) = c \<longleftrightarrow> n mod 256 = of_char c"
  by (metis of_char_of char_of_char char_of_mod_256)

lemmas str_defs = py_lower_def py_strip_def py_title_def is_space_def to_lower_def to_upper_def
  is_upper_def is_lower_def is_cased_def char_of_nat_eq_iff







lemma to_upper_to_lower: "to_upper (to_lower c) = to_upper c"
  by (auto simp add: to_upper_def to_lower_def is_lower_def is_upper_def Let_def
      char_of_nat_eq_iff)

lemma to_lower_to_upper: "to_lower (to_upper c) = to_lower c"
  by (auto simp add: to_upper_def to_lower_def is_lower_def is_upper_def Let_def
      char_of_nat_eq_iff)





section \<open>Age groups\<close>

text \<open>
  C1. \<open>get_age_group\<close> returns the missing marker for a missing age, \<open>Teenager\<close> for
  an age from 3 to 18, \<open>Adult\<close> from 19 to 64, \<open>Senior\<close> from 65 on, and \<open>Other\<close> for
  every other number; so 10, 30, 70 and 1 give \<open>Teenager\<close>, \<open>Adult\<close>, \<open>Senior\<close> and
  \<open>Other\<close>.
\<close>

theorem get_age_group_ranges:
  "get_age_group Missing = Inr Missing
   \<and> (3 \<le> r \<and> r \<le> 18 \<longrightarrow> get_age_group (Num (Fin r)) = Inr (Str ''Teenager''))
   \<and> (19 \<le> r \<and> r \<le> 64 \<longrightarrow> get_age_group (Num (Fin r)) = Inr (Str ''Adult''))
   \<and> (65 \<le> r \<longrightarrow> get_age_group (Num (Fin r)) = Inr (Str ''Senior''))
   \<and> (\<not> (3 \<le> r \<and> r \<le> 18) \<and> \<not> (19 \<le> r \<and> r \<le> 64) \<and> \<not> 65 \<le> r \<longrightarrow>
        get_age_group (Num (Fin r)) = Inr (Str ''Other''))
   \<and> get_age_group (Num PInf) = Inr (Str ''Senior'')
   \<and> get_age_group (Num NInf) = Inr (Str ''Other'')
   \<and> get_age_group (Num (Fin 10)) = Inr (Str ''Teenager'')
   \<and> get_age_group (Num (Fin 30)) = Inr (Str ''Adult'')
   \<and> get_age_group (Num (Fin 70)) = Inr (Str ''Senior'')
   \<and> get_age_group (Num (Fin 1)) = Inr (Str ''Other'')"
  by simp

theorem get_age_group_ranges_witness:
  "(3::real) \<le> 12 \<and> (12::real) \<le> 18 \<and> get_age_group (Num (Fin 12)) = Inr (Str ''Teenager'')
   \<and> (19::real) \<le> 45 \<and> (45::real) \<le> 64 \<and> get_age_group (Num (Fin 45)) = Inr (Str ''Adult'')
   \<and> (65::real) \<le> 80 \<and> get_age_group (Num (Fin 80)) = Inr (Str ''Senior'')
   \<and> \<not> (3::real) \<le> 2 \<and> get_age_group (Num (Fin 2)) = Inr (Str ''Other'')"
  using get_age_group_ranges [of 12] get_age_group_ranges [of 45]
    get_age_group_ranges [of 80] get_age_group_ranges [of 2]
  by simp

text \<open>
  C6 as stated fails: the age 18.5 is a number, it is not below 3, and it lies in none
  of the three named ranges, so \<open>get_age_group\<close> returns \<open>Other\<close> for it.
\<close>

theorem other_reached_above_three:
  "get_age_group (Num (Fin (37 / 2))) = Inr (Str ''Other'') \<and> \<not> ((37 / 2 :: real) < 3)"
  by simp

text \<open>
  C6, amended to whole-number ages: for an age that is a whole number, \<open>Other\<close> is
  returned only below 3, and every whole age of at least 3 is \<open>Teenager\<close>, \<open>Adult\<close> or
  \<open>Senior\<close>.
\<close>

theorem other_only_below_three_whole:
  "(get_age_group (Num (Fin (of_int k))) = Inr (Str ''Other'') \<longrightarrow> k < 3)
   \<and> (3 \<le> k \<longrightarrow> get_age_group (Num (Fin (of_int k)))
          \<in> {Inr (Str ''Teenager''), Inr (Str ''Adult''), Inr (Str ''Senior'')})"
  by (auto split: if_splits)

theorem other_only_below_three_whole_witness:
  "get_age_group (Num (Fin (of_int 2))) = Inr (Str ''Other'') \<and> (2::int) < 3
   \<and> (3::int) \<le> 18 \<and> get_age_group (Num (Fin (of_int 18))) = Inr (Str ''Teenager'')
   \<and> (3::int) \<le> 19 \<and> get_age_group (Num (Fin (of_int 19))) = Inr (Str ''Adult'')"
  using other_only_below_three_whole [of 2] other_only_below_three_whole [of 18]
    other_only_below_three_whole [of 19]
  by simp

section \<open>Gender\<close>



section \<open>Quantity\<close>




section \<open>Date\<close>






section \<open>The absent table\<close>

text \<open>
  C9. \<open>clean_data(None)\<close> prints the diagnostic \<open>Error: No data to clean.\<close>, returns
  \<open>None\<close> without raising, and leaves every table as it was.
\<close>

theorem clean_data_none:
  "clean_data L None w
     = (Inr None, w\<lparr>stdout := stdout w @ [Print ''Error: No data to clean.'']\<rparr>)
   \<and> heap (snd (clean_data L None w)) = heap w"
  by (simp add: clean_data_def)

section \<open>Cleaning a clean value changes nothing\<close>



















lemma get_age_group_numeric: "\<exists>y. get_age_group (to_numeric L x) = Inr y"
  by (cases x) (simp_all split: option.splits)

section \<open>Columns of a table\<close>

lemma filter_key_map_other:
  "c \<noteq> c' \<Longrightarrow>
     filter (\<lambda>(k, v). k = c') (map (\<lambda>(k, v). (k, if k = c then xs else v)) l)
       = filter (\<lambda>(k, v). k = c') l"
  by (induction l) auto

lemma filter_key_map_same:
  "filter (\<lambda>(k, v). k = c) (map (\<lambda>(k, v). (k, if k = c then xs else v)) l)
     = map (\<lambda>(k, v). (k, xs)) (filter (\<lambda>(k, v). k = c) l)"
  by (induction l) auto

lemma map_key_update_id:
  "\<forall>p\<in>set l. fst p = c \<longrightarrow> snd p = xs \<Longrightarrow>
     map (\<lambda>(k, v). (k, if k = c then xs else v)) l = l"
  by (induction l) auto

lemma map_key_update_twice:
  "map ((\<lambda>(k, v). (k, if k = c then xs else v)) \<circ> (\<lambda>(k, v). (k, if k = c then xs else v))) l
     = map (\<lambda>(k, v). (k, if k = c then xs else v)) l"
  by (induction l) auto

lemma map_fst_key_update:
  "map fst (map (\<lambda>(k, v). (k, if k = c then xs else v)) l) = map fst l"
  by (induction l) auto

lemma filter_key_empty: "c \<notin> fst ` set l \<Longrightarrow> filter (\<lambda>(k, v). k = c) l = []"
  by (induction l) auto

lemma getitem_Inr_iff:
  "getitem d c = Inr xs \<longleftrightarrow> filter (\<lambda>(k, v). k = c) (columns d) = [(c, xs)]"
proof -
  have key: "\<And>k v. filter (\<lambda>(k, v). k = c) (columns d) = [(k, v)] \<Longrightarrow> k = c"
  proof -
    fix k v
    assume "filter (\<lambda>(k, v). k = c) (columns d) = [(k, v)]"
    then have "(k, v) \<in> set (filter (\<lambda>(k, v). k = c) (columns d))"
      by simp
    then show "k = c"
      by simp
  qed
  show ?thesis
    by (auto simp add: getitem_def split: list.splits dest: key)
qed

lemma getitem_in_labels: "getitem d c = Inr xs \<Longrightarrow> c \<in> set (labels d)"
proof -
  assume "getitem d c = Inr xs"
  then have "(c, xs) \<in> set (filter (\<lambda>(k, v). k = c) (columns d))"
    by (simp add: getitem_Inr_iff)
  then have "(c, xs) \<in> set (columns d)"
    by simp
  then show ?thesis
    by (force simp add: labels_def)
qed

lemma getitem_setitem_other: "c \<noteq> c' \<Longrightarrow> getitem (setitem d c xs) c' = getitem d c'"
  by (simp add: getitem_def setitem_def filter_key_map_other)

lemma getitem_setitem_same:
  assumes "getitem d c = Inr ys"
  shows "getitem (setitem d c xs) c = Inr xs"
proof -
  from assms have f: "filter (\<lambda>(k, v). k = c) (columns d) = [(c, ys)]"
    by (simp add: getitem_Inr_iff)
  from assms have "c \<in> set (labels d)"
    by (rule getitem_in_labels)
  then show ?thesis
    by (simp add: getitem_Inr_iff setitem_def filter_key_map_same f)
qed


lemma labels_setitem:
  "labels (setitem d c xs) = (if c \<in> set (labels d) then labels d else labels d @ [c])"
  by (auto simp add: setitem_def labels_def case_prod_beta)

lemma setitem_twice: "setitem (setitem d c xs) c xs = setitem d c xs"
proof (cases "c \<in> set (labels d)")
  case True
  then have "c \<in> set (labels (setitem d c xs))"
    by (simp add: labels_setitem)
  with True show ?thesis
    by (simp add: setitem_def [of "setitem d c xs"]) (simp add: setitem_def map_key_update_twice)
next
  case False
  then have n: "\<forall>p\<in>set (columns d). fst p = c \<longrightarrow> snd p = xs"
    by (auto simp add: labels_def)
  have "c \<in> set (labels (setitem d c xs))"
    using False by (simp add: labels_setitem)
  then show ?thesis
    using False by (simp add: setitem_def [of "setitem d c xs"]) (simp add: setitem_def map_key_update_id [OF n])
qed

lemma nrows_setitem: "nrows (setitem d c xs) = nrows d"
  by (simp add: setitem_def)

lemma well_formed_setitem:
  "well_formed d \<Longrightarrow> length xs = nrows d \<Longrightarrow> well_formed (setitem d c xs)"
  by (auto simp add: well_formed_def setitem_def list_all_iff)

lemma well_formed_getitem: "well_formed d \<Longrightarrow> getitem d c = Inr xs \<Longrightarrow> length xs = nrows d"
proof -
  assume w: "well_formed d" and "getitem d c = Inr xs"
  then have "(c, xs) \<in> set (filter (\<lambda>(k, v). k = c) (columns d))"
    by (simp add: getitem_Inr_iff)
  then have "(c, xs) \<in> set (columns d)"
    by simp
  with w show ?thesis
    by (auto simp add: well_formed_def list_all_iff)
qed

lemma labels_rename:
  "labels (rename_columns old new d) = map (\<lambda>c. if c = old then new else c) (labels d)"
  by (simp add: rename_columns_def labels_def comp_def case_prod_beta)

lemma nrows_rename: "nrows (rename_columns old new d) = nrows d"
  by (simp add: rename_columns_def)

lemma well_formed_rename: "well_formed (rename_columns old new d) = well_formed d"
  by (simp add: rename_columns_def well_formed_def list_all_iff case_prod_beta)


lemma assign_Inr_iff:
  "assign t s g d = Inr d' \<longleftrightarrow>
     (\<exists>xs ys. getitem d s = Inr xs \<and> g xs = Inr ys \<and> d' = setitem d t ys)"
  by (auto simp add: assign_def split: sum.splits)

lemma exec_Cons_None:
  "exec (s # ss) d = (None, d') \<longleftrightarrow> (\<exists>d1. s d = Inr d1 \<and> exec ss d1 = (None, d'))"
  by (auto split: sum.splits)

lemma exec_Nil_None: "exec [] d = (None, d') \<longleftrightarrow> d' = d"
  by auto

section \<open>A run of the statements\<close>

lemma assign_selfE:
  assumes "assign c c g d = Inr d'"
  obtains xs ys where "getitem d c = Inr xs" and "g xs = Inr ys"
    and "getitem d' c = Inr ys" and "d' = setitem d c ys" and "labels d' = labels d"
proof -
  from assms obtain xs ys where 1: "getitem d c = Inr xs" and 2: "g xs = Inr ys"
    and 3: "d' = setitem d c ys"
    by (auto simp add: assign_Inr_iff)
  from 1 have 4: "getitem d' c = Inr ys"
    unfolding 3 by (rule getitem_setitem_same)
  from 1 have 5: "labels d' = labels d"
    unfolding 3 by (simp add: labels_setitem getitem_in_labels)
  show thesis
    by (rule that [OF 1 2 4 3 5])
qed

lemma assign_other: "assign t s g d = Inr d' \<Longrightarrow> c \<noteq> t \<Longrightarrow> getitem d' c = getitem d c"
  by (auto simp add: assign_Inr_iff getitem_setitem_other)


lemma normalize_channel_comp: "replace_empty \<circ> (str_title \<circ> str_strip) = normalize_channel"
  by (rule ext) (simp add: normalize_channel_def)

lemma channel_step_cases:
  "channel_step L xs = Inr (map normalize_channel xs) \<or> channel_step L xs = Inl AttributeError"
  by (simp add: channel_step_def str_method_def normalize_channel_comp)

lemma channel_step_Inr: "channel_step L xs = Inr ys \<Longrightarrow> ys = map normalize_channel xs"
  using channel_step_cases [of L xs] by auto



lemma apply_series_numeric: "\<exists>ys. apply_series get_age_group (map (to_numeric L) xs) = Inr ys"
proof (induction xs)
  case Nil
  then show ?case by simp
next
  case (Cons x xs)
  obtain y where "get_age_group (to_numeric L x) = Inr y"
    using get_age_group_numeric by blast
  with Cons show ?case by auto
qed

lemma apply_series_length: "apply_series f xs = Inr ys \<Longrightarrow> length ys = length xs"
  by (induction xs arbitrary: ys) (auto split: sum.splits)

lemma length_to_datetime: "length (to_datetime L xs) = length xs"
  by (simp add: to_datetime_def)

text \<open>What a run of the statements that raises nothing leaves in the table.\<close>

lemma clean_steps_result:
  assumes "exec (clean_steps L) d = (None, d')"
  shows "\<exists>gs qs cs as ds ms grp.
      getitem d' ''Gender'' = Inr (map (clean_gender L) gs)
    \<and> getitem d' ''Qty'' = Inr (map (to_numeric L) qs)
    \<and> getitem d' ''Channel'' = Inr (map normalize_channel cs)
    \<and> getitem d' ''Age'' = Inr (map (to_numeric L) as)
    \<and> getitem d' ''Date'' = Inr (to_datetime L ds)
    \<and> getitem d' ''Amount'' = Inr (map (to_numeric L) ms)
    \<and> apply_series get_age_group (map (to_numeric L) as) = Inr grp
    \<and> d' = setitem d' ''Age Group'' grp
    \<and> labels d' =
        (let ls = map (\<lambda>c. if c = ''Channel '' then ''Channel'' else c) (labels d)
         in if ''Age Group'' \<in> set ls then ls else ls @ [''Age Group''])"
proof -
  let ?d0 = "rename_columns ''Channel '' ''Channel'' d"
  from assms obtain d1 d2 d3 d4 d5 d6 d7 where
    s1: "assign ''Gender'' ''Gender'' (Inr \<circ> map (clean_gender L)) ?d0 = Inr d1" and
    s2: "assign ''Qty'' ''Qty'' (Inr \<circ> map (qty_words L)) d1 = Inr d2" and
    s3: "assign ''Qty'' ''Qty'' (Inr \<circ> map (to_numeric L)) d2 = Inr d3" and
    s4: "assign ''Channel'' ''Channel'' (channel_step L) d3 = Inr d4" and
    s5: "assign ''Age'' ''Age'' (Inr \<circ> map (to_numeric L)) d4 = Inr d5" and
    s6: "assign ''Date'' ''Date'' (Inr \<circ> to_datetime L) d5 = Inr d6" and
    s7: "assign ''Amount'' ''Amount'' (Inr \<circ> map (to_numeric L)) d6 = Inr d7" and
    s8: "assign ''Age Group'' ''Age'' (apply_series get_age_group) d7 = Inr d'"
    by (auto simp add: clean_steps_def exec_Cons_None exec_Nil_None simp del: exec.simps)
  from s1 obtain gs where g1: "getitem d1 ''Gender'' = Inr (map (clean_gender L) gs)"
    and l1: "labels d1 = labels ?d0"
    by (rule assign_selfE) auto
  from s3 obtain qs where q3: "getitem d3 ''Qty'' = Inr (map (to_numeric L) qs)"
    and l3: "labels d3 = labels d2"
    by (rule assign_selfE) auto
  from s2 have l2: "labels d2 = labels d1"
    by (rule assign_selfE)
  from s4 obtain cs where c4: "getitem d4 ''Channel'' = Inr (map normalize_channel cs)"
    and l4: "labels d4 = labels d3"
    by (rule assign_selfE) (auto dest: channel_step_Inr)
  from s5 obtain as where a5: "getitem d5 ''Age'' = Inr (map (to_numeric L) as)"
    and l5: "labels d5 = labels d4"
    by (rule assign_selfE) auto
  from s6 obtain ds where t6: "getitem d6 ''Date'' = Inr (to_datetime L ds)"
    and l6: "labels d6 = labels d5"
    by (rule assign_selfE) auto
  from s7 obtain ms where m7: "getitem d7 ''Amount'' = Inr (map (to_numeric L) ms)"
    and l7: "labels d7 = labels d6"
    by (rule assign_selfE) auto
  have a7: "getitem d7 ''Age'' = Inr (map (to_numeric L) as)"
    using a5 assign_other [OF s6, of "''Age''"] assign_other [OF s7, of "''Age''"] by simp
  from s8 a7 obtain grp where
    grp: "apply_series get_age_group (map (to_numeric L) as) = Inr grp" and
    d': "d' = setitem d7 ''Age Group'' grp"
    by (auto simp add: assign_Inr_iff)
  have "getitem d' ''Gender'' = Inr (map (clean_gender L) gs)"
    using g1 assign_other [OF s2, of "''Gender''"] assign_other [OF s3, of "''Gender''"]
      assign_other [OF s4, of "''Gender''"] assign_other [OF s5, of "''Gender''"]
      assign_other [OF s6, of "''Gender''"] assign_other [OF s7, of "''Gender''"]
      assign_other [OF s8, of "''Gender''"] by simp
  moreover have "getitem d' ''Qty'' = Inr (map (to_numeric L) qs)"
    using q3 assign_other [OF s4, of "''Qty''"] assign_other [OF s5, of "''Qty''"]
      assign_other [OF s6, of "''Qty''"] assign_other [OF s7, of "''Qty''"]
      assign_other [OF s8, of "''Qty''"] by simp
  moreover have "getitem d' ''Channel'' = Inr (map normalize_channel cs)"
    using c4 assign_other [OF s5, of "''Channel''"]
      assign_other [OF s6, of "''Channel''"] assign_other [OF s7, of "''Channel''"]
      assign_other [OF s8, of "''Channel''"] by simp
  moreover have "getitem d' ''Age'' = Inr (map (to_numeric L) as)"
    using a7 assign_other [OF s8, of "''Age''"] by simp
  moreover have "getitem d' ''Date'' = Inr (to_datetime L ds)"
    using t6 assign_other [OF s7, of "''Date''"] assign_other [OF s8, of "''Date''"] by simp
  moreover have "getitem d' ''Amount'' = Inr (map (to_numeric L) ms)"
    using m7 assign_other [OF s8, of "''Amount''"] by simp
  moreover note grp
  moreover have "d' = setitem d' ''Age Group'' grp"
    unfolding d' by (simp only: setitem_twice)
  moreover have "labels d' =
        (let ls = map (\<lambda>c. if c = ''Channel '' then ''Channel'' else c) (labels d)
         in if ''Age Group'' \<in> set ls then ls else ls @ [''Age Group''])"
    unfolding d' by (simp only: labels_setitem l7 l6 l5 l4 l3 l2 l1 labels_rename Let_def)
  ultimately show ?thesis
    by blast
qed

lemma exec_all_fixed: "\<forall>s\<in>set ss. s d = Inr d \<Longrightarrow> exec ss d = (None, d)"
  by (induction ss) simp_all


lemma exec_invariant:
  "\<forall>s\<in>set ss. \<forall>a b. s a = Inr b \<longrightarrow> P a \<longrightarrow> P b \<Longrightarrow> P d \<Longrightarrow> P (snd (exec ss d))"
proof (induction ss arbitrary: d)
  case Nil
  then show ?case by simp
next
  case (Cons s ss)
  show ?case
  proof (cases "s d")
    case (Inl e)
    with Cons.prems show ?thesis by simp
  next
    case (Inr d1)
    with Cons.prems have "P d1" by simp
    moreover from Cons.prems have "\<forall>s\<in>set ss. \<forall>a b. s a = Inr b \<longrightarrow> P a \<longrightarrow> P b" by simp
    ultimately have "P (snd (exec ss d1))" by (rule Cons.IH [rotated])
    with Inr show ?thesis by simp
  qed
qed

lemma assign_shape:
  assumes "\<And>xs ys. g xs = Inr ys \<Longrightarrow> length ys = length xs"
  shows "\<forall>a b. assign t s g a = Inr b \<longrightarrow>
           nrows a = n \<and> (w \<longrightarrow> well_formed a) \<longrightarrow> nrows b = n \<and> (w \<longrightarrow> well_formed b)"
proof (intro allI impI)
  fix a b
  assume r: "assign t s g a = Inr b" and p: "nrows a = n \<and> (w \<longrightarrow> well_formed a)"
  from r obtain xs ys where x: "getitem a s = Inr xs" and y: "g xs = Inr ys"
    and b: "b = setitem a t ys"
    by (auto simp add: assign_Inr_iff)
  from y have "length ys = length xs"
    by (rule assms)
  with x have "well_formed a \<Longrightarrow> length ys = nrows a"
    by (simp add: well_formed_getitem)
  with p show "nrows b = n \<and> (w \<longrightarrow> well_formed b)"
    unfolding b by (auto simp add: nrows_setitem well_formed_setitem)
qed

lemma rename_shape:
  "\<forall>a b. (Inr \<circ> rename_columns old new) a = Inr b \<longrightarrow>
     nrows a = n \<and> (w \<longrightarrow> well_formed a) \<longrightarrow> nrows b = n \<and> (w \<longrightarrow> well_formed b)"
  by (auto simp add: nrows_rename well_formed_rename)

lemma clean_steps_shape:
  assumes "nrows d = n \<and> (w \<longrightarrow> well_formed d)"
  shows "nrows (snd (exec (clean_steps L) d)) = n
    \<and> (w \<longrightarrow> well_formed (snd (exec (clean_steps L) d)))"
proof -
  have "\<forall>s\<in>set (clean_steps L). \<forall>a b. s a = Inr b \<longrightarrow>
      nrows a = n \<and> (w \<longrightarrow> well_formed a) \<longrightarrow> nrows b = n \<and> (w \<longrightarrow> well_formed b)"
    unfolding clean_steps_def
    by (simp only: list.set ball_simps)
       (intro conjI rename_shape assign_shape;
        auto simp add: length_to_datetime apply_series_length dest: channel_step_Inr)
  then show ?thesis
    using assms by (rule exec_invariant)
qed

lemma clean_data_Inr_iff:
  "clean_data L (Some r) w = (Inr res, w') \<longleftrightarrow>
     (\<exists>d'. exec (clean_steps L) (heap w r) = (None, d') \<and> res = Some r
        \<and> w' = w\<lparr>heap := (heap w)(r := d'),
                  stdout := stdout w @ [Print (CHR 0x0A # ''Dataset Info After Cleaning:''), Info d']\<rparr>)"
  by (auto simp add: clean_data_def split: prod.splits option.splits)

section \<open>The sample tables, cleaned\<close>

lemmas table_defs = clean_steps_def assign_def getitem_def setitem_def labels_def
  rename_columns_def clean_gender_def qty_map_def channel_step_def str_method_def
  replace_empty_def to_datetime_def is_whole_def stamp_of_days_def ns_per_day_def
  stamp_min_def stamp_max_def stamp_of_date_def days_from_civil_def option_cell_def
  sample_lib_def parse_decimal_def is_digit_def

lemma sample_steps: "exec (clean_steps sample_lib) sample_table = (None, cleaned_table)"
  by (simp add: sample_table_def cleaned_table_def table_defs str_defs Let_def)

lemma cleaned_steps: "exec (clean_steps sample_lib) cleaned_table = (None, cleaned_table)"
  by (simp add: cleaned_table_def table_defs str_defs Let_def)

lemma sample_run: "clean_data sample_lib (Some 0) sample_world = (Inr (Some 0), cleaned_world)"
  by (simp add: clean_data_def sample_world_def cleaned_world_def sample_steps fun_eq_iff)

lemma cleaned_run:
  "clean_data sample_lib (Some 0) cleaned_world
      = (Inr (Some 0),
         cleaned_world\<lparr>heap := (heap cleaned_world)(0 := cleaned_table),
           stdout := stdout cleaned_world
             @ [Print (CHR 0x0A # ''Dataset Info After Cleaning:''), Info cleaned_table]\<rparr>)"
  by (simp add: clean_data_def cleaned_steps cleaned_world_def)



section \<open>Channel\<close>




section \<open>Rows and columns of the cleaned table\<close>

text \<open>
  C4 as stated fails on a table that already has an \<open>Age Group\<close> column, such as the
  table an earlier call produced: line 70 overwrites that column, and the cleaned table
  has the columns of its input with none appended.
\<close>

theorem age_group_column_not_appended:
  "fst (clean_data sample_lib (Some 0) cleaned_world) = Inr (Some 0)
   \<and> labels (heap cleaned_world 0)
       = [''Gender'', ''Qty'', ''Channel'', ''Age'', ''Date'', ''Amount'', ''Status'', ''Age Group'']
   \<and> labels (heap (snd (clean_data sample_lib (Some 0) cleaned_world)) 0)
       = labels (heap cleaned_world 0)
   \<and> labels (heap (snd (clean_data sample_lib (Some 0) cleaned_world)) 0)
       \<noteq> map (\<lambda>c. if c = ''Channel '' then ''Channel'' else c) (labels (heap cleaned_world 0))
           @ [''Age Group'']"
  by (simp add: cleaned_run) (simp add: cleaned_world_def cleaned_table_def labels_def)

text \<open>
  C4, amended: the table \<open>clean_data\<close> returns has as many rows as its input, every
  column as long as before, and the columns of the input in their order, with
  \<open>Channel \<close> renamed to \<open>Channel\<close>; \<open>Age Group\<close> is appended as one more column when
  the input has no column of that name, and stays in its place when it has.
\<close>

theorem clean_data_shape:
  "clean_data L (Some r) w = (Inr res, w') \<Longrightarrow>
     res = Some r
     \<and> nrows (heap w' r) = nrows (heap w r)
     \<and> (well_formed (heap w r) \<longrightarrow> well_formed (heap w' r))
     \<and> labels (heap w' r) =
         (let ls = map (\<lambda>c. if c = ''Channel '' then ''Channel'' else c) (labels (heap w r))
          in if ''Age Group'' \<in> set ls then ls else ls @ [''Age Group''])"
proof -
  assume "clean_data L (Some r) w = (Inr res, w')"
  then obtain d' where e: "exec (clean_steps L) (heap w r) = (None, d')" and res: "res = Some r"
    and h: "heap w' r = d'"
    by (auto simp add: clean_data_Inr_iff)
  from clean_steps_result [OF e] have "labels d' =
         (let ls = map (\<lambda>c. if c = ''Channel '' then ''Channel'' else c) (labels (heap w r))
          in if ''Age Group'' \<in> set ls then ls else ls @ [''Age Group''])"
    by blast
  moreover have "nrows d' = nrows (heap w r)
      \<and> (well_formed (heap w r) \<longrightarrow> well_formed d')"
    using clean_steps_shape [of "heap w r" "nrows (heap w r)" "well_formed (heap w r)" L] e
    by simp
  ultimately show ?thesis
    using res h by simp
qed

theorem clean_data_shape_witness:
  "clean_data sample_lib (Some 0) sample_world = (Inr (Some 0), cleaned_world)
   \<and> nrows (heap cleaned_world 0) = nrows (heap sample_world 0)
   \<and> well_formed (heap sample_world 0) \<and> well_formed (heap cleaned_world 0)
   \<and> labels (heap sample_world 0)
       = [''Gender'', ''Qty'', ''Channel '', ''Age'', ''Date'', ''Amount'', ''Status'']
   \<and> labels (heap cleaned_world 0)
       = [''Gender'', ''Qty'', ''Channel'', ''Age'', ''Date'', ''Amount'', ''Status'', ''Age Group'']"
proof -
  have a: "well_formed (heap sample_world 0)"
    by (simp add: sample_world_def sample_table_def well_formed_def)
  have b: "labels (heap sample_world 0)
      = [''Gender'', ''Qty'', ''Channel '', ''Age'', ''Date'', ''Amount'', ''Status'']"
    by (simp add: sample_world_def sample_table_def labels_def)
  show ?thesis
    using clean_data_shape [OF sample_run] sample_run a b by simp
qed

section \<open>Cleaning twice\<close>




section \<open>Effects of \<open>clean_data\<close>\<close>




end
